theory Spec2Isabelle
  imports Complex_Main "HOL-Library.Word"
begin

section \<open>Floating-point values of the source\<close>

text \<open>
  The C++ types \<open>float\<close> (binary32) and \<open>double\<close> (binary64) are modelled by the real
  numbers they denote. A conversion or an arithmetic result is rounded to the nearest
  representable value, ties to the even significand. Infinities and NaN have no
  counterpart: a value beyond the largest finite one stays the rounded real.
\<close>

type_synonym float = real
type_synonym double = real

fun bit_length :: "nat \<Rightarrow> nat" where
  "bit_length n = (if n = 0 then 0 else Suc (bit_length (n div 2)))"

declare bit_length.simps [simp del]

definition floor_log2 :: "real \<Rightarrow> int" where
  \<comment> \<open>for \<open>0 < x\<close>: the exponent \<open>e\<close> with \<open>2 ^ e \<le> x < 2 ^ (e + 1)\<close>\<close>
  "floor_log2 x =
     (if 1 \<le> x then int (bit_length (nat \<lfloor>x\<rfloor>)) - 1
      else - int (bit_length (nat (\<lceil>1 / x\<rceil> - 1))))"

definition pow2 :: "int \<Rightarrow> real" where
  "pow2 k = (if 0 \<le> k then 2 ^ nat k else 1 / 2 ^ nat (- k))"

definition round_half_even :: "real \<Rightarrow> int" where
  "round_half_even x =
     (let f = \<lfloor>x\<rfloor>; r = x - of_int f
      in if r < 1 / 2 then f else if 1 / 2 < r then f + 1
         else if even f then f else f + 1)"

definition round_binary :: "nat \<Rightarrow> int \<Rightarrow> real \<Rightarrow> real" where
  \<comment> \<open>\<open>p\<close> significand bits; \<open>qmin\<close> the exponent of the smallest subnormal step\<close>
  "round_binary p qmin x =
     (if x = 0 then 0
      else let u = pow2 (max (floor_log2 \<bar>x\<bar> - (int p - 1)) qmin)
           in of_int (round_half_even (x / u)) * u)"

definition to_float :: "real \<Rightarrow> float" where
  "to_float = round_binary 24 (- 149)"

definition to_double :: "real \<Rightarrow> double" where
  "to_double = round_binary 53 (- 1074)"

definition FLT_MAX :: float where
  \<comment> \<open>\<open>std::numeric_limits<float>::max()\<close>\<close>
  "FLT_MAX = (2 ^ 24 - 1) * 2 ^ 104"

section \<open>Eigen matrices and transforms\<close>

type_synonym Vector3 = "real \<times> real \<times> real"
type_synonym Matrix3 = "Vector3 \<times> Vector3 \<times> Vector3"

text \<open>\<open>Eigen::Matrix4f\<close> by its blocks: the top-left 3x3 corner, the top-right column
  and the bottom row.\<close>

record Matrix4f =
  topLeftCorner :: Matrix3
  topRightCorner :: Vector3
  bottomRow :: "real \<times> real \<times> real \<times> real"

text \<open>\<open>Eigen::Affine3d\<close>: the linear part and the translation; its products and its
  inverse read and write nothing else.\<close>

record Affine3d =
  linear_part :: Matrix3
  translation_part :: Vector3

definition Identity3 :: Matrix3 where
  "Identity3 = ((1, 0, 0), (0, 1, 0), (0, 0, 1))"

definition Identity4f :: Matrix4f where
  "Identity4f = \<lparr>topLeftCorner = Identity3, topRightCorner = (0, 0, 0),
                  bottomRow = (0, 0, 0, 1)\<rparr>"

fun vec_add :: "Vector3 \<Rightarrow> Vector3 \<Rightarrow> Vector3" where
  "vec_add (a, b, c) (x, y, z) = (a + x, b + y, c + z)"

fun vec_neg :: "Vector3 \<Rightarrow> Vector3" where
  "vec_neg (x, y, z) = (- x, - y, - z)"

fun mat_vec :: "Matrix3 \<Rightarrow> Vector3 \<Rightarrow> Vector3" where
  "mat_vec ((a, b, c), (d, e, f), (g, h, i)) (x, y, z) =
     (a * x + b * y + c * z, d * x + e * y + f * z, g * x + h * y + i * z)"

fun mat_mul :: "Matrix3 \<Rightarrow> Matrix3 \<Rightarrow> Matrix3" where
  "mat_mul ((a, b, c), (d, e, f), (g, h, i)) ((r, s, t), (u, v, w), (x, y, z)) =
     ((a * r + b * u + c * x, a * s + b * v + c * y, a * t + b * w + c * z),
      (d * r + e * u + f * x, d * s + e * v + f * y, d * t + e * w + f * z),
      (g * r + h * u + i * x, g * s + h * v + i * y, g * t + h * w + i * z))"

fun determinant :: "Matrix3 \<Rightarrow> real" where
  "determinant ((a, b, c), (d, e, f), (g, h, i)) =
     a * (e * i - f * h) - b * (d * i - f * g) + c * (d * h - e * g)"

text \<open>The inverse of a 3x3 block as Eigen computes it for fixed sizes: the cofactors
  scaled by the reciprocal of the determinant. The arithmetic is exact here; a singular
  block, where the source divides by zero, is outside the model.\<close>

fun mat_inverse :: "Matrix3 \<Rightarrow> Matrix3" where
  "mat_inverse ((a, b, c), (d, e, f), (g, h, i)) =
     (let invdet = 1 / determinant ((a, b, c), (d, e, f), (g, h, i))
      in (((e * i - f * h) * invdet, (c * h - b * i) * invdet, (b * f - c * e) * invdet),
          ((f * g - d * i) * invdet, (a * i - c * g) * invdet, (c * d - a * f) * invdet),
          ((d * h - e * g) * invdet, (b * g - a * h) * invdet, (a * e - b * d) * invdet)))"

definition affine_mul :: "Affine3d \<Rightarrow> Affine3d \<Rightarrow> Affine3d" where
  \<comment> \<open>\<open>lhs * rhs\<close>\<close>
  "affine_mul lhs rhs =
     \<lparr>linear_part = mat_mul (linear_part lhs) (linear_part rhs),
      translation_part =
        vec_add (mat_vec (linear_part lhs) (translation_part rhs)) (translation_part lhs)\<rparr>"

definition affine_inverse :: "Affine3d \<Rightarrow> Affine3d" where
  \<comment> \<open>\<open>t.inverse()\<close> in the default affine mode\<close>
  "affine_inverse t =
     (let li = mat_inverse (linear_part t)
      in \<lparr>linear_part = li, translation_part = vec_neg (mat_vec li (translation_part t))\<rparr>)"


definition cast_double :: "Matrix4f \<Rightarrow> Affine3d" where
  \<comment> \<open>\<open>transform_m2l.matrix() = result.cast<double>()\<close>: every float is a double\<close>
  "cast_double m = \<lparr>linear_part = topLeftCorner m, translation_part = topRightCorner m\<rparr>"

section \<open>Messages and configuration\<close>

type_synonym PointXYZ = "float \<times> float \<times> float"
type_synonym PointXYZI = "float \<times> float \<times> float \<times> float"

text \<open>A point cloud is the sequence of its points; a \<open>sensor_msgs::PointCloud2\<close> message
  is identified with the cloud that \<open>pcl::fromROSMsg\<close> reads from it.\<close>

type_synonym PointCloud = "PointXYZI list"
type_synonym PointCloud2 = PointCloud

text \<open>\<open>geometry_msgs::PointStamped\<close>: the three double coordinates of the point.\<close>

type_synonym PointStamped = "double \<times> double \<times> double"

text \<open>\<open>geometry_msgs::Transform\<close>: translation and the quaternion \<open>(x, y, z, w)\<close>.\<close>

record Transform =
  translation :: Vector3
  rotation :: "double \<times> double \<times> double \<times> double"

fun quaternion_matrix :: "double \<times> double \<times> double \<times> double \<Rightarrow> Matrix3" where
  \<comment> \<open>\<open>Eigen::Quaterniond(w, x, y, z).toRotationMatrix()\<close>\<close>
  "quaternion_matrix (x, y, z, w) =
     ((1 - (2 * y * y + 2 * z * z), 2 * y * x - 2 * z * w, 2 * z * x + 2 * y * w),
      (2 * y * x + 2 * z * w, 1 - (2 * x * x + 2 * z * z), 2 * z * y - 2 * x * w),
      (2 * z * x - 2 * y * w, 2 * z * y + 2 * x * w, 1 - (2 * x * x + 2 * y * y)))"

definition transformToEigen :: "Transform \<Rightarrow> Affine3d" where
  \<comment> \<open>\<open>tf2::transformToEigen\<close>: translation times quaternion\<close>
  "transformToEigen t =
     \<lparr>linear_part = quaternion_matrix (rotation t), translation_part = translation t\<rparr>"

text \<open>The parameter server as the constructor reads it: a parameter that is not set
  is \<open>None\<close> and \<open>param\<close> falls back to the default.\<close>

record NodeHandle =
  baselink2lidar_trans :: "float list option"
  baselink2lidar_rot :: "float list option"
  scanLeafSize_param :: "float option"
  mapLeafSize_param :: "float option"

definition param :: "'a option \<Rightarrow> 'a \<Rightarrow> 'a" where
  "param v default_val = (case v of None \<Rightarrow> default_val | Some x \<Rightarrow> x)"

datatype rosout =
  ROS_INFO string "real list"
  | ROS_WARN string
  | ROS_ERROR string

datatype csv_line =
  header
  | row int double double double double double double

fun row_id :: "csv_line \<Rightarrow> int option" where
  "row_id header = None"
| "row_id (row n x y z yaw pitch roll) = Some n"

text \<open>What the node publishes, by the value each message is built from.\<close>

datatype published =
  lidar_pose_gps PointStamped
  | tf_gps PointStamped
  | transformed_points Matrix4f PointCloud2
  | tf_lidar Matrix4f
  | lidar_pose Matrix4f

section \<open>External primitives\<close>

record icp_settings =
  MaxCorrespondenceDistance :: double
  MaximumIterations :: int
  EuclideanFitnessEpsilon :: double
  TransformationEpsilon :: double

text \<open>
  The libraries the node calls are parameters of the model:
  \<^item> \<open>voxel_grid leaf cloud\<close>: \<open>pcl::VoxelGrid\<close> with cubic leaf size \<open>leaf\<close>;
  \<^item> \<open>icp_align settings source target guess\<close>: \<open>pcl::IterativeClosestPoint::align\<close>,
    giving \<open>getFinalTransformation()\<close> and \<open>getFitnessScore()\<close>;
  \<^item> \<open>angle_axis_z yaw\<close>: the rotation matrix of \<open>Eigen::AngleAxisf(yaw, UnitZ)\<close>;
  \<^item> \<open>euler_ypr m\<close>: the quaternion of the rotation block \<open>m\<close>, read back by
    \<open>tf::Matrix3x3::getEulerYPR\<close>.
\<close>

record env =
  voxel_grid :: "float \<Rightarrow> PointCloud \<Rightarrow> PointCloud"
  icp_align :: "icp_settings \<Rightarrow> PointCloud \<Rightarrow> PointCloud \<Rightarrow> Matrix4f \<Rightarrow> Matrix4f \<times> double"
  angle_axis_z :: "float \<Rightarrow> Matrix3"
  euler_ypr :: "Matrix3 \<Rightarrow> double \<times> double \<times> double"

section \<open>The Localizer\<close>

datatype icp_object = first_icp | icp

text \<open>One entry of the history of registrations: the object aligned, its inputs, and the
  value of \<open>initialied\<close> when \<open>align\<close> was called. The history is an observation of the
  run, not a member of the class.\<close>

record align_call =
  aligner :: icp_object
  input_source :: PointCloud
  input_target :: PointCloud
  guess :: Matrix4f
  initialied_then :: bool

record Localizer =
  mapLeafSize :: float
  scanLeafSize :: float
  map_points :: PointCloud
  gps_point :: PointXYZ
  gps_ready :: bool
  map_ready :: bool
  initialied :: bool
  init_guess :: Matrix4f
  cnt :: "32 word"
  outfile_is_open :: bool
  outfile :: "csv_line list"
  car2Lidar :: Transform
  localization_score :: double
  rosout_log :: "rosout list"
  publications :: "published list"
  align_history :: "align_call list"

datatype exn = out_of_range

definition vector_at :: "'a list \<Rightarrow> nat \<Rightarrow> exn + 'a" where
  \<comment> \<open>\<open>std::vector::at\<close>\<close>
  "vector_at xs i = (if i < length xs then Inr (xs ! i) else Inl out_of_range)"

definition then_at :: "exn + 'a \<Rightarrow> ('a \<Rightarrow> exn + 'b) \<Rightarrow> exn + 'b" where
  "then_at r k = (case r of Inl e \<Rightarrow> Inl e | Inr v \<Rightarrow> k v)"

definition members :: "Transform \<Rightarrow> float \<Rightarrow> float \<Rightarrow> bool \<Rightarrow> Localizer" where
  \<comment> \<open>the members when the constructor returns\<close>
  "members c2l map_leaf scan_leaf opened =
     \<lparr>mapLeafSize = map_leaf,
      scanLeafSize = scan_leaf,
      map_points = [],
      gps_point = (0, 0, 0),
      gps_ready = False,
      map_ready = False,
      initialied = False,
      init_guess = Identity4f,
      cnt = 0,
      outfile_is_open = opened,
      outfile = (if opened then [header] else []),
      car2Lidar = c2l,
      localization_score = 0,
      rosout_log = [],
      publications = [],
      align_history = []\<rparr>"

text \<open>The constructor. \<open>opened\<close> tells whether \<open>outfile.open\<close> succeeded. The messages
  logged come back also when an exception leaves the constructor.\<close>

definition Localizer_ctor :: "NodeHandle \<Rightarrow> bool \<Rightarrow> rosout list \<times> (exn + Localizer)" where
  "Localizer_ctor nh opened =
     (let trans = param (baselink2lidar_trans nh) [];
          rot = param (baselink2lidar_rot nh) [];
          log1 = [ROS_INFO ''saving results to %s'' []];
          log2 = log1 @ (if length trans \<noteq> 3 \<or> length rot \<noteq> 4
                         then [ROS_ERROR ''transform not set properly''] else [])
      in case
           then_at (vector_at trans 0) (\<lambda>tx.
           then_at (vector_at trans 1) (\<lambda>ty.
           then_at (vector_at trans 2) (\<lambda>tz.
           then_at (vector_at rot 0) (\<lambda>rx.
           then_at (vector_at rot 1) (\<lambda>ry.
           then_at (vector_at rot 2) (\<lambda>rz.
           then_at (vector_at rot 3) (\<lambda>rw.
             Inr \<lparr>translation = (tx, ty, tz), rotation = (rx, ry, rz, rw)\<rparr>)))))))
         of Inl e \<Rightarrow> (log2, Inl e)
          | Inr c2l \<Rightarrow>
              (log2 @ [ROS_INFO ''%s initialized'' []],
               Inr (members c2l
                      (param (mapLeafSize_param nh) (to_float (to_double (3 / 10))))
                      (param (scanLeafSize_param nh) (to_float (to_double (3 / 10))))
                      opened)))"

definition Localizer_dtor :: "Localizer \<Rightarrow> rosout list" where
  \<comment> \<open>the destructor: what it logs\<close>
  "Localizer_dtor st =
     (if outfile_is_open st then [ROS_INFO ''ICP score: %lf'' [localization_score st]] else [])"

definition map_callback :: "PointCloud2 \<Rightarrow> Localizer \<Rightarrow> Localizer" where
  "map_callback msg st = st\<lparr>map_points := msg, map_ready := True\<rparr>"

definition float_point :: "PointStamped \<Rightarrow> PointXYZ" where
  \<comment> \<open>the double coordinates of a fix, assigned to the float members of \<open>gps_point\<close>\<close>
  "float_point msg = (to_float (fst msg), to_float (fst (snd msg)), to_float (snd (snd msg)))"

definition gps_callback :: "PointStamped \<Rightarrow> Localizer \<Rightarrow> Localizer" where
  "gps_callback msg st =
     (let st1 = st\<lparr>gps_point := float_point msg\<rparr>;
          st2 = (if \<not> initialied st1
                 then st1\<lparr>publications := publications st1 @ [lidar_pose_gps msg, tf_gps msg]\<rparr>
                 else st1)
      in st2\<lparr>gps_ready := True\<rparr>)"

definition first_icp_settings :: icp_settings where
  "first_icp_settings =
     \<lparr>MaxCorrespondenceDistance = 2, MaximumIterations = 1000,
      EuclideanFitnessEpsilon = to_double (1 / 10 ^ 8),
      TransformationEpsilon = to_double (1 / 10 ^ 8)\<rparr>"

definition icp_settings_steady :: icp_settings where
  \<comment> \<open>the setters applied to the member \<open>icp\<close> before each \<open>align\<close>\<close>
  "icp_settings_steady =
     \<lparr>MaxCorrespondenceDistance = 1, MaximumIterations = 1000,
      EuclideanFitnessEpsilon = to_double (1 / 10 ^ 8),
      TransformationEpsilon = to_double (1 / 10 ^ 8)\<rparr>"

definition heading_guess :: "env \<Rightarrow> PointXYZ \<Rightarrow> float \<Rightarrow> Matrix4f" where
  \<comment> \<open>\<open>(init_translation * init_rotation_z).matrix()\<close>\<close>
  "heading_guess E p yaw =
     \<lparr>topLeftCorner = angle_axis_z E yaw, topRightCorner = p, bottomRow = (0, 0, 0, 1)\<rparr>"

text \<open>The body of the heading loop, for one \<open>yaw\<close>: the loop variables \<open>min_score\<close> and
  \<open>min_pose\<close> and the object come back updated. The locals \<open>update_cnt\<close> and \<open>min_yaw\<close>
  of the source are never read and are left out.\<close>

definition first_icp_body ::
  "env \<Rightarrow> PointCloud \<Rightarrow> PointCloud \<Rightarrow> float \<Rightarrow> float \<times> Matrix4f \<times> Localizer
     \<Rightarrow> float \<times> Matrix4f \<times> Localizer" where
  "first_icp_body E filtered_scan filtered_map yaw acc =
     (let min_score = fst acc; min_pose = fst (snd acc); st = snd (snd acc);
          g = heading_guess E (gps_point st) yaw;
          st1 = st\<lparr>init_guess := g,
                   rosout_log := rosout_log st @
                     [ROS_INFO ''---------------------------------------------------------------'' [],
                      ROS_INFO ''start align: %f'' [yaw]],
                   align_history := align_history st @
                     [\<lparr>aligner = first_icp, input_source = filtered_scan,
                       input_target = filtered_map, guess = g,
                       initialied_then = initialied st\<rparr>]\<rparr>;
          aligned = icp_align E first_icp_settings filtered_scan filtered_map g;
          score = snd aligned;
          st2 = st1\<lparr>rosout_log := rosout_log st1 @
                     [ROS_INFO ''min score: %f, score: %f'' [min_score, score]]\<rparr>
      in if score < min_score
         then (to_float score, fst aligned,
               st2\<lparr>rosout_log := rosout_log st2 @ [ROS_INFO ''Update best pose'' []]\<rparr>)
         else (min_score, min_pose, st2))"

text \<open>\<open>for (yaw = 0; yaw < 0.2; yaw += 0.05)\<close> with \<open>float yaw\<close>: the literals are
  doubles, the sum is a double and is narrowed to \<open>float\<close> by the assignment.\<close>

definition literal_0_2 :: double where
  "literal_0_2 = to_double (2 / 10)"

definition literal_0_05 :: double where
  "literal_0_05 = to_double (5 / 100)"

definition next_yaw :: "float \<Rightarrow> float" where
  "next_yaw yaw = to_float (to_double (yaw + literal_0_05))"

partial_function (option) first_icp_loop ::
  "env \<Rightarrow> PointCloud \<Rightarrow> PointCloud \<Rightarrow> float \<Rightarrow> float \<times> Matrix4f \<times> Localizer
     \<Rightarrow> (float \<times> Matrix4f \<times> Localizer) option" where
  "first_icp_loop E filtered_scan filtered_map yaw acc =
     (if yaw < literal_0_2
      then first_icp_loop E filtered_scan filtered_map (next_yaw yaw)
             (first_icp_body E filtered_scan filtered_map yaw acc)
      else Some acc)"

definition align_map :: "env \<Rightarrow> PointCloud \<Rightarrow> Localizer \<Rightarrow> (Matrix4f \<times> Localizer) option" where
  "align_map E scan_points st =
     (let filtered_map = voxel_grid E (mapLeafSize st) (map_points st);
          filtered_scan = voxel_grid E (scanLeafSize st) scan_points;
          searched =
            (if \<not> initialied st
             then (case first_icp_loop E filtered_scan filtered_map 0 (FLT_MAX, Identity4f, st) of
                     None \<Rightarrow> None
                   | Some found \<Rightarrow>
                       let st1 = snd (snd found)
                       in Some (st1\<lparr>rosout_log := rosout_log st1 @ [ROS_INFO ''Get initial guess'' []],
                                     init_guess := fst (snd found),
                                     initialied := True\<rparr>))
             else Some st)
      in case searched of
           None \<Rightarrow> None
         | Some st2 \<Rightarrow>
             let aligned = icp_align E icp_settings_steady filtered_scan filtered_map (init_guess st2);
                 result = fst aligned
             in Some (result,
                      st2\<lparr>localization_score := to_double (localization_score st2 + snd aligned),
                          init_guess := result,
                          align_history := align_history st2 @
                            [\<lparr>aligner = icp, input_source = filtered_scan,
                              input_target = filtered_map, guess = init_guess st2,
                              initialied_then = initialied st2\<rparr>]\<rparr>))"

datatype inbound = map_msg PointCloud2 | gps_msg PointStamped

fun deliver :: "Localizer \<Rightarrow> inbound \<Rightarrow> Localizer" where
  "deliver st (map_msg m) = map_callback m st"
| "deliver st (gps_msg g) = gps_callback g st"

definition spinOnce :: "inbound list \<Rightarrow> Localizer \<Rightarrow> Localizer" where
  \<comment> \<open>\<open>ros::spinOnce()\<close> with the given messages queued\<close>
  "spinOnce queued st = foldl deliver st queued"

text \<open>
  The readiness loop at the head of \<open>pc_callback\<close>. Each turn warns, sleeps and calls
  \<open>ros::spinOnce()\<close>. What the transport has queued for the successive calls is the
  argument \<open>polls\<close>: map and fix messages only, a scan queued behind the one in hand
  stays queued. When \<open>polls\<close> is used up nothing arrives any more and the loop spins for
  ever: the result is \<open>None\<close>.
\<close>

fun wait_ready :: "inbound list list \<Rightarrow> Localizer \<Rightarrow> Localizer option" where
  "wait_ready polls st =
     (if gps_ready st \<and> map_ready st then Some st
      else (case polls of
              [] \<Rightarrow> None
            | queued # later \<Rightarrow>
                wait_ready later
                  (spinOnce queued
                     (st\<lparr>rosout_log := rosout_log st
                          @ (if gps_ready st then [ROS_WARN ''waiting for map data ...''] else [])
                          @ (if map_ready st then [ROS_WARN ''waiting for gps data ...''] else [])\<rparr>))))"

declare wait_ready.simps [simp del]

definition car_pose :: "Matrix4f \<Rightarrow> Transform \<Rightarrow> Affine3d" where
  \<comment> \<open>\<open>tf_p = transform_m2l * transform_c2l.inverse()\<close>\<close>
  "car_pose result c2l =
     (let transform_m2l = cast_double result;
          transform_c2l = transformToEigen c2l
      in affine_mul transform_m2l (affine_inverse transform_c2l))"

definition pose_row :: "env \<Rightarrow> 32 word \<Rightarrow> Affine3d \<Rightarrow> csv_line" where
  \<comment> \<open>the line written for \<open>tf_p\<close>; the \<open>int\<close> counter is printed signed\<close>
  "pose_row E n tf_p =
     (let ypr = euler_ypr E (linear_part tf_p); t = translation_part tf_p
      in row (sint n) (fst t) (fst (snd t)) (snd (snd t))
           (fst ypr) (fst (snd ypr)) (snd (snd ypr)))"

definition record_pose :: "env \<Rightarrow> Matrix4f \<Rightarrow> Localizer \<Rightarrow> Localizer" where
  \<comment> \<open>the end of \<open>pc_callback\<close>: the pose of the car is composed and written;
      a stream that is not open drops the line, \<open>++cnt\<close> happens all the same\<close>
  "record_pose E result st =
     (let tf_p = car_pose result (car2Lidar st);
          n = cnt st + 1;
          st1 = st\<lparr>cnt := n,
                   outfile := (if outfile_is_open st then outfile st @ [pose_row E n tf_p]
                               else outfile st)\<rparr>
      in if n = 396
         then st1\<lparr>rosout_log := rosout_log st1 @ [ROS_INFO ''ITRI bag finished'' []]\<rparr>
         else st1)"

definition pc_callback :: "env \<Rightarrow> PointCloud2 \<Rightarrow> inbound list list \<Rightarrow> Localizer \<Rightarrow> Localizer option" where
  "pc_callback E msg polls st =
     (case wait_ready polls st of
        None \<Rightarrow> None
      | Some st1 \<Rightarrow>
          (case align_map E msg st1 of
             None \<Rightarrow> None
           | Some aligned \<Rightarrow>
               let result = fst aligned; st2 = snd aligned;
                   st3 = st2\<lparr>publications := publications st2 @
                           [transformed_points result msg, tf_lidar result, lidar_pose result]\<rparr>
               in Some (record_pose E result st3)))"

section \<open>Runs\<close>

text \<open>The transport calls one callback per message, in arrival order. A scan comes with
  the polls of its readiness loop.\<close>

datatype event =
  on_map PointCloud2
  | on_gps PointStamped
  | on_points PointCloud2 "inbound list list"

fun handle :: "env \<Rightarrow> event \<Rightarrow> Localizer \<Rightarrow> Localizer option" where
  "handle E (on_map m) st = Some (map_callback m st)"
| "handle E (on_gps g) st = Some (gps_callback g st)"
| "handle E (on_points s polls) st = pc_callback E s polls st"

fun run :: "env \<Rightarrow> event list \<Rightarrow> Localizer \<Rightarrow> Localizer option" where
  "run E [] st = Some st"
| "run E (e # es) st = (case handle E e st of None \<Rightarrow> None | Some st1 \<Rightarrow> run E es st1)"

fun is_scan :: "event \<Rightarrow> bool" where
  "is_scan (on_points s polls) = True"
| "is_scan e = False"



section \<open>Notions used by the properties\<close>

text \<open>The headings the loop visits, as the \<open>float\<close> values of \<open>yaw\<close>.\<close>

definition headings :: "float list" where
  "headings = [0, 13421773 / 268435456, 13421773 / 134217728, 5033165 / 33554432]"

definition bootstrap_call :: "env \<Rightarrow> PointCloud \<Rightarrow> PointCloud \<Rightarrow> Localizer \<Rightarrow> float \<Rightarrow> align_call" where
  \<comment> \<open>the history entry of \<open>first_icp.align\<close> for one heading\<close>
  "bootstrap_call E fs fm st yaw =
     \<lparr>aligner = first_icp, input_source = fs, input_target = fm,
      guess = heading_guess E (gps_point st) yaw, initialied_then = initialied st\<rparr>"

definition candidate :: "env \<Rightarrow> PointCloud \<Rightarrow> PointCloud \<Rightarrow> PointXYZ \<Rightarrow> float \<Rightarrow> Matrix4f \<times> double" where
  \<comment> \<open>what the registrar answers for one heading: final transformation and fitness score\<close>
  "candidate E fs fm p yaw = icp_align E first_icp_settings fs fm (heading_guess E p yaw)"


definition keep_best :: "float \<times> Matrix4f \<Rightarrow> Matrix4f \<times> double \<Rightarrow> float \<times> Matrix4f" where
  \<comment> \<open>the update of \<open>(min_score, min_pose)\<close> by one candidate\<close>
  "keep_best best c = (if snd c < fst best then (to_float (snd c), fst c) else best)"

definition best_pose :: "env \<Rightarrow> PointCloud \<Rightarrow> PointCloud \<Rightarrow> PointXYZ \<Rightarrow> Matrix4f" where
  "best_pose E fs fm p =
     snd (foldl keep_best (FLT_MAX, Identity4f) (map (candidate E fs fm p) headings))"


definition steady_call :: "env \<Rightarrow> PointCloud \<Rightarrow> Localizer \<Rightarrow> align_call" where
  \<comment> \<open>the history entry of \<open>icp.align\<close> when \<open>align_map\<close> is entered in state \<open>st\<close>\<close>
  "steady_call E scan st =
     (let fs = voxel_grid E (scanLeafSize st) scan;
          fm = voxel_grid E (mapLeafSize st) (map_points st)
      in \<lparr>aligner = icp, input_source = fs, input_target = fm,
          guess = (if initialied st then init_guess st else best_pose E fs fm (gps_point st)),
          initialied_then = True\<rparr>)"

definition search_calls :: "env \<Rightarrow> PointCloud \<Rightarrow> Localizer \<Rightarrow> align_call list" where
  \<comment> \<open>the history entries of the heading search when \<open>align_map\<close> is entered in \<open>st\<close>\<close>
  "search_calls E scan st =
     (if initialied st then []
      else map (bootstrap_call E (voxel_grid E (scanLeafSize st) scan)
                  (voxel_grid E (mapLeafSize st) (map_points st)) st) headings)"

definition bootstrap_calls :: "Localizer \<Rightarrow> align_call list" where
  "bootstrap_calls st = filter (\<lambda>c. aligner c = first_icp) (align_history st)"

definition steady_calls :: "Localizer \<Rightarrow> align_call list" where
  "steady_calls st = filter (\<lambda>c. aligner c = icp) (align_history st)"

definition outcome :: "env \<Rightarrow> align_call \<Rightarrow> Matrix4f \<times> double" where
  \<comment> \<open>what the registrar answered to a call of the history\<close>
  "outcome E c =
     icp_align E (case aligner c of first_icp \<Rightarrow> first_icp_settings | icp \<Rightarrow> icp_settings_steady)
       (input_source c) (input_target c) (guess c)"

definition chained :: "env \<Rightarrow> align_call list \<Rightarrow> bool" where
  \<comment> \<open>every call but the first starts from the answer to the call before it\<close>
  "chained E cs \<longleftrightarrow>
     (\<forall>j. Suc j < length cs \<longrightarrow> guess (cs ! Suc j) = fst (outcome E (cs ! j)))"

definition untouched :: "Localizer \<Rightarrow> Localizer \<Rightarrow> bool" where
  \<comment> \<open>the members that only the processing of a scan writes are the same\<close>
  "untouched st st' \<longleftrightarrow>
     initialied st' = initialied st \<and> init_guess st' = init_guess st \<and> cnt st' = cnt st
     \<and> outfile st' = outfile st \<and> outfile_is_open st' = outfile_is_open st
     \<and> localization_score st' = localization_score st
     \<and> align_history st' = align_history st \<and> car2Lidar st' = car2Lidar st
     \<and> mapLeafSize st' = mapLeafSize st \<and> scanLeafSize st' = scanLeafSize st"


section \<open>Stand-ins for the external primitives, and example inputs\<close>

text \<open>A registrar that hands the guess back and scores it by its heading: 5, 3, 4 and
  3.5 for the four headings of the search. The downsampler keeps the cloud.\<close>

definition stub_score :: "Matrix4f \<Rightarrow> double" where
  "stub_score g =
     (let y = fst (fst (snd (topLeftCorner g)))
      in if y = 0 then 5 else if y = 13421773 / 268435456 then 3
         else if y = 13421773 / 134217728 then 4 else 7 / 2)"

definition stub_env :: env where
  "stub_env =
     \<lparr>voxel_grid = (\<lambda>leaf cloud. cloud),
      icp_align = (\<lambda>settings src tgt g. (g, stub_score g)),
      angle_axis_z = (\<lambda>yaw. ((1, - yaw, 0), (yaw, 1, 0), (0, 0, 1))),
      euler_ypr = (\<lambda>m. (0, 0, 0))\<rparr>"



definition example_handle :: NodeHandle where
  "example_handle =
     \<lparr>baselink2lidar_trans = Some [1, 0, 2], baselink2lidar_rot = Some [0, 0, 0, 1],
      scanLeafSize_param = Some (1 / 2), mapLeafSize_param = Some (1 / 2)\<rparr>"

definition unset_handle :: NodeHandle where
  \<comment> \<open>no extrinsics on the parameter server\<close>
  "unset_handle =
     \<lparr>baselink2lidar_trans = None, baselink2lidar_rot = None,
      scanLeafSize_param = None, mapLeafSize_param = None\<rparr>"

definition oversized_handle :: NodeHandle where
  \<comment> \<open>one element too many in the translation\<close>
  "oversized_handle =
     \<lparr>baselink2lidar_trans = Some [1, 0, 2, 7], baselink2lidar_rot = Some [0, 0, 0, 1],
      scanLeafSize_param = None, mapLeafSize_param = None\<rparr>"

definition example_node :: Localizer where
  "example_node = members \<lparr>translation = (1, 0, 2), rotation = (0, 0, 0, 1)\<rparr> (1 / 2) (1 / 2) True"

definition example_map :: PointCloud2 where
  "example_map = [(0, 0, 0, 1), (1, 0, 0, 1)]"


definition example_scan :: PointCloud2 where
  "example_scan = [(0, 0, 0, 1)]"

definition example_ready_node :: Localizer where
  \<comment> \<open>the example node once a map and a fix have arrived\<close>
  "example_ready_node = gps_callback (10, 5, 0) (map_callback example_map example_node)"

definition example_events :: "event list" where
  "example_events =
     [on_map example_map, on_gps (10, 5, 0),
      on_points example_scan [], on_points example_scan [], on_points example_scan []]"



section \<open>The floating-point conversions, evaluated\<close>

lemma next_yaw_0: "next_yaw 0 = 13421773 / 268435456" by code_simp
lemma next_yaw_1: "next_yaw (13421773 / 268435456) = 13421773 / 134217728" by code_simp
lemma next_yaw_2: "next_yaw (13421773 / 134217728) = 5033165 / 33554432" by code_simp
lemma next_yaw_3: "next_yaw (5033165 / 33554432) = 13421773 / 67108864" by code_simp
lemma literal_0_2_value: "literal_0_2 = 3602879701896397 / 18014398509481984" by code_simp

lemma to_float_0: "to_float 0 = 0" by (simp add: to_float_def round_binary_def)
lemma to_float_3: "to_float 3 = 3" by code_simp
lemma to_float_5: "to_float 5 = 5" by code_simp
lemma to_float_10: "to_float 10 = 10" by code_simp
lemma to_double_3: "to_double 3 = 3" by code_simp
lemma to_double_6: "to_double 6 = 6" by code_simp
lemma to_double_9: "to_double 9 = 9" by code_simp

section \<open>The heading loop\<close>

lemma first_icp_loop_unrolled:
  "first_icp_loop E fs fm 0 acc =
     Some (foldl (\<lambda>a yaw. first_icp_body E fs fm yaw a) acc headings)"
  apply (subst first_icp_loop.simps, simp add: literal_0_2_value next_yaw_0)
  apply (subst first_icp_loop.simps, simp add: literal_0_2_value next_yaw_1)
  apply (subst first_icp_loop.simps, simp add: literal_0_2_value next_yaw_2)
  apply (subst first_icp_loop.simps, simp add: literal_0_2_value next_yaw_3)
  apply (subst first_icp_loop.simps, simp add: literal_0_2_value headings_def)
  done

lemma first_icp_body_result:
  "\<exists>L. first_icp_body E fs fm yaw (ms, mp, st) =
     (fst (keep_best (ms, mp) (candidate E fs fm (gps_point st) yaw)),
      snd (keep_best (ms, mp) (candidate E fs fm (gps_point st) yaw)),
      st\<lparr>init_guess := heading_guess E (gps_point st) yaw, rosout_log := L,
         align_history := align_history st @ [bootstrap_call E fs fm st yaw]\<rparr>)"
  by (rule exI [of _ "rosout_log (snd (snd (first_icp_body E fs fm yaw (ms, mp, st))))"])
    (simp add: first_icp_body_def keep_best_def candidate_def bootstrap_call_def Let_def)

lemma first_icp_fold_result:
  "\<exists>g L. foldl (\<lambda>a yaw. first_icp_body E fs fm yaw a) (ms, mp, st) ys =
     (fst (foldl keep_best (ms, mp) (map (candidate E fs fm (gps_point st)) ys)),
      snd (foldl keep_best (ms, mp) (map (candidate E fs fm (gps_point st)) ys)),
      st\<lparr>init_guess := g, rosout_log := L,
         align_history := align_history st @ map (bootstrap_call E fs fm st) ys\<rparr>)"
proof (induction ys rule: rev_induct)
  case Nil
  have "st = st\<lparr>init_guess := init_guess st, rosout_log := rosout_log st,
                 align_history := align_history st @ []\<rparr>"
    by simp
  then show ?case by (metis foldl_Nil list.simps(8) fst_conv snd_conv append_Nil2)
next
  case (snoc y ys)
  let ?b = "foldl keep_best (ms, mp) (map (candidate E fs fm (gps_point st)) ys)"
  from snoc obtain g L where fold_ys:
    "foldl (\<lambda>a yaw. first_icp_body E fs fm yaw a) (ms, mp, st) ys =
       (fst ?b, snd ?b,
        st\<lparr>init_guess := g, rosout_log := L,
           align_history := align_history st @ map (bootstrap_call E fs fm st) ys\<rparr>)"
    by blast
  let ?st1 = "st\<lparr>init_guess := g, rosout_log := L,
           align_history := align_history st @ map (bootstrap_call E fs fm st) ys\<rparr>"
  obtain L' where step:
    "first_icp_body E fs fm y (fst ?b, snd ?b, ?st1) =
       (fst (keep_best (fst ?b, snd ?b) (candidate E fs fm (gps_point ?st1) y)),
        snd (keep_best (fst ?b, snd ?b) (candidate E fs fm (gps_point ?st1) y)),
        ?st1\<lparr>init_guess := heading_guess E (gps_point ?st1) y, rosout_log := L',
           align_history := align_history ?st1 @ [bootstrap_call E fs fm ?st1 y]\<rparr>)"
    using first_icp_body_result [of E fs fm y "fst ?b" "snd ?b" ?st1] by blast
  have same_call: "bootstrap_call E fs fm ?st1 y = bootstrap_call E fs fm st y"
    by (simp add: bootstrap_call_def)
  show ?case
    apply (simp add: fold_ys step same_call)
    apply (rule exI [of _ "heading_guess E (gps_point st) y"])
    apply (rule exI [of _ L'])
    apply simp
    done
qed


lemma headings_iterated:
  "headings = [0, next_yaw 0, next_yaw (next_yaw 0), next_yaw (next_yaw (next_yaw 0))]"
  by (simp add: headings_def next_yaw_0 next_yaw_1 next_yaw_2)

lemma headings_below_limit: "\<forall>yaw \<in> set headings. 0 \<le> yaw \<and> yaw < literal_0_2"
  by (simp add: headings_def literal_0_2_value)

lemma headings_end: "\<not> next_yaw (last headings) < literal_0_2"
  by (simp add: headings_def next_yaw_3 literal_0_2_value)





section \<open>The callbacks, step by step\<close>

lemma align_map_initialied:
  assumes "initialied st"
  shows "align_map E scan st =
     Some (fst (icp_align E icp_settings_steady (voxel_grid E (scanLeafSize st) scan)
                  (voxel_grid E (mapLeafSize st) (map_points st)) (init_guess st)),
           st\<lparr>localization_score := to_double (localization_score st +
                  snd (icp_align E icp_settings_steady (voxel_grid E (scanLeafSize st) scan)
                  (voxel_grid E (mapLeafSize st) (map_points st)) (init_guess st))),
              init_guess := fst (icp_align E icp_settings_steady (voxel_grid E (scanLeafSize st) scan)
                  (voxel_grid E (mapLeafSize st) (map_points st)) (init_guess st)),
              align_history := align_history st @
                [\<lparr>aligner = icp, input_source = voxel_grid E (scanLeafSize st) scan,
                  input_target = voxel_grid E (mapLeafSize st) (map_points st),
                  guess = init_guess st, initialied_then = True\<rparr>]\<rparr>)"
  using assms by (simp add: align_map_def Let_def)

lemma align_map_bootstrap:
  assumes "\<not> initialied st"
  shows "\<exists>L. align_map E scan st =
     Some (fst (icp_align E icp_settings_steady (voxel_grid E (scanLeafSize st) scan)
                  (voxel_grid E (mapLeafSize st) (map_points st))
                  (best_pose E (voxel_grid E (scanLeafSize st) scan)
                     (voxel_grid E (mapLeafSize st) (map_points st)) (gps_point st))),
           st\<lparr>initialied := True, rosout_log := L,
              localization_score := to_double (localization_score st +
                  snd (icp_align E icp_settings_steady (voxel_grid E (scanLeafSize st) scan)
                  (voxel_grid E (mapLeafSize st) (map_points st))
                  (best_pose E (voxel_grid E (scanLeafSize st) scan)
                     (voxel_grid E (mapLeafSize st) (map_points st)) (gps_point st)))),
              init_guess := fst (icp_align E icp_settings_steady (voxel_grid E (scanLeafSize st) scan)
                  (voxel_grid E (mapLeafSize st) (map_points st))
                  (best_pose E (voxel_grid E (scanLeafSize st) scan)
                     (voxel_grid E (mapLeafSize st) (map_points st)) (gps_point st))),
              align_history := align_history st @
                map (bootstrap_call E (voxel_grid E (scanLeafSize st) scan)
                       (voxel_grid E (mapLeafSize st) (map_points st)) st) headings @
                [\<lparr>aligner = icp, input_source = voxel_grid E (scanLeafSize st) scan,
                  input_target = voxel_grid E (mapLeafSize st) (map_points st),
                  guess = best_pose E (voxel_grid E (scanLeafSize st) scan)
                     (voxel_grid E (mapLeafSize st) (map_points st)) (gps_point st),
                  initialied_then = True\<rparr>]\<rparr>)"
proof -
  let ?fs = "voxel_grid E (scanLeafSize st) scan"
  let ?fm = "voxel_grid E (mapLeafSize st) (map_points st)"
  obtain g L where found:
    "foldl (\<lambda>a yaw. first_icp_body E ?fs ?fm yaw a) (FLT_MAX, Identity4f, st) headings =
       (fst (foldl keep_best (FLT_MAX, Identity4f) (map (candidate E ?fs ?fm (gps_point st)) headings)),
        snd (foldl keep_best (FLT_MAX, Identity4f) (map (candidate E ?fs ?fm (gps_point st)) headings)),
        st\<lparr>init_guess := g, rosout_log := L,
           align_history := align_history st @ map (bootstrap_call E ?fs ?fm st) headings\<rparr>)"
    using first_icp_fold_result [of E ?fs ?fm FLT_MAX Identity4f st headings] by blast
  show ?thesis
    apply (rule exI [of _ "L @ [ROS_INFO ''Get initial guess'' []]"])
    using assms
    apply (simp add: align_map_def Let_def first_icp_loop_unrolled found best_pose_def)
    done
qed

lemma align_map_result:
  "\<exists>L. align_map E scan st =
     Some (fst (outcome E (steady_call E scan st)),
           st\<lparr>initialied := True, rosout_log := L,
              localization_score :=
                to_double (localization_score st + snd (outcome E (steady_call E scan st))),
              init_guess := fst (outcome E (steady_call E scan st)),
              align_history :=
                align_history st @ search_calls E scan st @ [steady_call E scan st]\<rparr>)"
proof (cases "initialied st")
  case True
  show ?thesis
    apply (rule exI [of _ "rosout_log st"])
    using True
    apply (simp add: align_map_initialied outcome_def steady_call_def search_calls_def Let_def)
    done
next
  case False
  from align_map_bootstrap [OF False, of E scan] obtain L where
    "align_map E scan st =
     Some (fst (icp_align E icp_settings_steady (voxel_grid E (scanLeafSize st) scan)
                  (voxel_grid E (mapLeafSize st) (map_points st))
                  (best_pose E (voxel_grid E (scanLeafSize st) scan)
                     (voxel_grid E (mapLeafSize st) (map_points st)) (gps_point st))),
           st\<lparr>initialied := True, rosout_log := L,
              localization_score := to_double (localization_score st +
                  snd (icp_align E icp_settings_steady (voxel_grid E (scanLeafSize st) scan)
                  (voxel_grid E (mapLeafSize st) (map_points st))
                  (best_pose E (voxel_grid E (scanLeafSize st) scan)
                     (voxel_grid E (mapLeafSize st) (map_points st)) (gps_point st)))),
              init_guess := fst (icp_align E icp_settings_steady (voxel_grid E (scanLeafSize st) scan)
                  (voxel_grid E (mapLeafSize st) (map_points st))
                  (best_pose E (voxel_grid E (scanLeafSize st) scan)
                     (voxel_grid E (mapLeafSize st) (map_points st)) (gps_point st))),
              align_history := align_history st @
                map (bootstrap_call E (voxel_grid E (scanLeafSize st) scan)
                       (voxel_grid E (mapLeafSize st) (map_points st)) st) headings @
                [\<lparr>aligner = icp, input_source = voxel_grid E (scanLeafSize st) scan,
                  input_target = voxel_grid E (mapLeafSize st) (map_points st),
                  guess = best_pose E (voxel_grid E (scanLeafSize st) scan)
                     (voxel_grid E (mapLeafSize st) (map_points st)) (gps_point st),
                  initialied_then = True\<rparr>]\<rparr>)"
    by blast
  then show ?thesis
    apply -
    apply (rule exI [of _ L])
    using False
    apply (simp add: outcome_def steady_call_def search_calls_def Let_def)
    done
qed

lemma untouched_refl: "untouched st st"
  by (simp add: untouched_def)

lemma untouched_trans: "untouched a b \<Longrightarrow> untouched b c \<Longrightarrow> untouched a c"
  by (simp add: untouched_def)

lemma untouched_map_callback: "untouched st (map_callback m st)"
  by (simp add: untouched_def map_callback_def)

lemma untouched_gps_callback: "untouched st (gps_callback g st)"
  by (simp add: untouched_def gps_callback_def Let_def)

lemma untouched_deliver: "untouched st (deliver st m)"
  by (cases m) (simp_all add: untouched_map_callback untouched_gps_callback)

lemma untouched_spinOnce: "untouched st (spinOnce queued st)"
  unfolding spinOnce_def
proof (induction queued arbitrary: st)
  case Nil
  show ?case by (simp add: untouched_refl)
next
  case (Cons m queued)
  have "untouched st (deliver st m)" by (rule untouched_deliver)
  moreover have "untouched (deliver st m) (foldl deliver (deliver st m) queued)" by (rule Cons.IH)
  ultimately show ?case using untouched_trans by simp
qed

lemma wait_ready_result:
  "wait_ready polls st = Some sw \<Longrightarrow> untouched st sw \<and> gps_ready sw \<and> map_ready sw"
proof (induction polls arbitrary: st)
  case Nil
  then show ?case
    by (simp add: wait_ready.simps [of "[]"] untouched_refl split: if_splits)
next
  case (Cons queued later)
  show ?case
  proof (cases "gps_ready st \<and> map_ready st")
    case True
    with Cons.prems show ?thesis
      by (simp add: wait_ready.simps [of "queued # later"] untouched_refl)
  next
    case False
    let ?warned = "st\<lparr>rosout_log := rosout_log st
                          @ (if gps_ready st then [ROS_WARN ''waiting for map data ...''] else [])
                          @ (if map_ready st then [ROS_WARN ''waiting for gps data ...''] else [])\<rparr>"
    have "wait_ready (queued # later) st = wait_ready later (spinOnce queued ?warned)"
      by (subst wait_ready.simps) (simp only: False if_False list.case)
    with Cons.prems have rest: "wait_ready later (spinOnce queued ?warned) = Some sw"
      by simp
    have "untouched st ?warned" by (simp add: untouched_def)
    moreover have "untouched ?warned (spinOnce queued ?warned)" by (rule untouched_spinOnce)
    moreover from Cons.IH [OF rest] have "untouched (spinOnce queued ?warned) sw"
      and "gps_ready sw \<and> map_ready sw" by simp_all
    ultimately show ?thesis using untouched_trans by blast
  qed
qed

lemma wait_ready_when_ready:
  "gps_ready st \<Longrightarrow> map_ready st \<Longrightarrow> wait_ready polls st = Some st"
  by (simp add: wait_ready.simps [of polls])


lemma pc_callback_result:
  assumes "pc_callback E msg polls st = Some st'"
  shows "\<exists>sw. wait_ready polls st = Some sw
     \<and> initialied st'
     \<and> init_guess st' = fst (outcome E (steady_call E msg sw))
     \<and> localization_score st' =
         to_double (localization_score sw + snd (outcome E (steady_call E msg sw)))
     \<and> align_history st' = align_history sw @ search_calls E msg sw @ [steady_call E msg sw]
     \<and> cnt st' = cnt sw + 1
     \<and> outfile_is_open st' = outfile_is_open sw
     \<and> outfile st' =
         (if outfile_is_open sw
          then outfile sw @ [pose_row E (cnt sw + 1)
                 (car_pose (fst (outcome E (steady_call E msg sw))) (car2Lidar sw))]
          else outfile sw)
     \<and> car2Lidar st' = car2Lidar sw \<and> map_points st' = map_points sw
     \<and> gps_point st' = gps_point sw \<and> mapLeafSize st' = mapLeafSize sw
     \<and> scanLeafSize st' = scanLeafSize sw
     \<and> gps_ready st' = gps_ready sw \<and> map_ready st' = map_ready sw"
proof -
  from assms obtain sw where sw: "wait_ready polls st = Some sw"
    by (auto simp: pc_callback_def split: option.splits)
  obtain L where am: "align_map E msg sw =
     Some (fst (outcome E (steady_call E msg sw)),
           sw\<lparr>initialied := True, rosout_log := L,
              localization_score :=
                to_double (localization_score sw + snd (outcome E (steady_call E msg sw))),
              init_guess := fst (outcome E (steady_call E msg sw)),
              align_history :=
                align_history sw @ search_calls E msg sw @ [steady_call E msg sw]\<rparr>)"
    using align_map_result [of E msg sw] by blast
  from assms have "st' = record_pose E (fst (outcome E (steady_call E msg sw)))
      (sw\<lparr>initialied := True, rosout_log := L,
              localization_score :=
                to_double (localization_score sw + snd (outcome E (steady_call E msg sw))),
              init_guess := fst (outcome E (steady_call E msg sw)),
              align_history :=
                align_history sw @ search_calls E msg sw @ [steady_call E msg sw],
              publications := publications sw @
                [transformed_points (fst (outcome E (steady_call E msg sw))) msg,
                 tf_lidar (fst (outcome E (steady_call E msg sw))),
                 lidar_pose (fst (outcome E (steady_call E msg sw)))]\<rparr>)"
    by (simp add: pc_callback_def sw am Let_def)
  then show ?thesis
    using sw by (simp add: record_pose_def Let_def)
qed

lemma pc_callback_returns:
  assumes "wait_ready polls st = Some sw"
  shows "\<exists>st'. pc_callback E msg polls st = Some st'"
  using assms align_map_result [of E msg sw]
  by (auto simp: pc_callback_def Let_def)

lemma steady_call_aligner: "aligner (steady_call E scan st) = icp"
  by (simp add: steady_call_def Let_def)

lemma search_calls_steady: "filter (\<lambda>c. aligner c = icp) (search_calls E scan st) = []"
  by (simp add: search_calls_def bootstrap_call_def)

lemma search_calls_bootstrap:
  "filter (\<lambda>c. aligner c = first_icp) (search_calls E scan st) = search_calls E scan st"
  by (simp add: search_calls_def bootstrap_call_def)

lemma steady_calls_untouched: "untouched s s' \<Longrightarrow> steady_calls s' = steady_calls s"
  by (simp add: untouched_def steady_calls_def)

lemma bootstrap_calls_untouched: "untouched s s' \<Longrightarrow> bootstrap_calls s' = bootstrap_calls s"
  by (simp add: untouched_def bootstrap_calls_def)

lemma pc_callback_calls:
  assumes "pc_callback E msg polls st = Some st'"
  shows "\<exists>sw. wait_ready polls st = Some sw \<and> untouched st sw
     \<and> steady_calls st' = steady_calls st @ [steady_call E msg sw]
     \<and> bootstrap_calls st' = bootstrap_calls st @ search_calls E msg sw
     \<and> align_history st' = align_history st @ search_calls E msg sw @ [steady_call E msg sw]
     \<and> localization_score st' =
          to_double (localization_score st + snd (outcome E (steady_call E msg sw)))
     \<and> init_guess st' = fst (outcome E (steady_call E msg sw))
     \<and> initialied st'"
proof -
  from pc_callback_result [OF assms] obtain sw where sw: "wait_ready polls st = Some sw"
    and h: "align_history st' = align_history sw @ search_calls E msg sw @ [steady_call E msg sw]"
    and l: "localization_score st' =
         to_double (localization_score sw + snd (outcome E (steady_call E msg sw)))"
    and g: "init_guess st' = fst (outcome E (steady_call E msg sw))"
    and i: "initialied st'"
    by blast
  from wait_ready_result [OF sw] have u: "untouched st sw" by simp
  then have eqs: "align_history sw = align_history st"
    "localization_score sw = localization_score st"
    by (simp_all add: untouched_def)
  have "steady_calls st' = steady_calls st @ [steady_call E msg sw]"
    by (simp add: steady_calls_def h eqs search_calls_steady steady_call_aligner)
  moreover have "bootstrap_calls st' = bootstrap_calls st @ search_calls E msg sw"
    by (simp add: bootstrap_calls_def h eqs search_calls_bootstrap steady_call_aligner)
  ultimately show ?thesis using sw u h l g i eqs by simp
qed


lemma outcome_bootstrap_call:
  "outcome E (bootstrap_call E fs fm st yaw) = candidate E fs fm (gps_point st) yaw"
  by (simp add: outcome_def bootstrap_call_def candidate_def)

lemma chained_snoc:
  assumes "chained E cs" and "cs \<noteq> []" and "guess c = fst (outcome E (last cs))"
  shows "chained E (cs @ [c])"
  unfolding chained_def
proof (intro allI impI)
  fix j assume j: "Suc j < length (cs @ [c])"
  show "guess ((cs @ [c]) ! Suc j) = fst (outcome E ((cs @ [c]) ! j))"
  proof (cases "Suc j < length cs")
    case True
    with assms(1) show ?thesis by (simp add: chained_def nth_append)
  next
    case False
    with j have sj: "Suc j = length cs" by simp
    then have "j = length cs - 1" by simp
    with sj have "(cs @ [c]) ! Suc j = c" "(cs @ [c]) ! j = last cs"
      using assms(2) by (simp_all add: nth_append last_conv_nth)
    with assms(3) show ?thesis by simp
  qed
qed

lemma chained_single: "chained E [c]"
  by (simp add: chained_def)

lemma row_id_pose_row: "row_id (pose_row E n t) = Some (sint n)"
  by (simp add: pose_row_def Let_def)

lemma sint_of_nat_32:
  assumes "n < 2 ^ 31"
  shows "sint (of_nat n :: 32 word) = int n"
proof -
  have "signed_take_bit 31 (int n) = int n"
    using assms by (simp add: signed_take_bit_int_eq_self_iff)
  then show ?thesis by (simp add: signed_of_nat)
qed

lemma then_at_Inr: "then_at (Inr v) k = k v"
  by (simp add: then_at_def)

section \<open>Runs from the constructed node\<close>

lemma run_tracker_invariant:
  assumes "run E es st = Some st'" and "P n st"
    and stable: "\<And>k s s'. P k s \<Longrightarrow> untouched s s' \<Longrightarrow> P k s'"
    and step: "\<And>k m polls s s'. P k s \<Longrightarrow> pc_callback E m polls s = Some s' \<Longrightarrow> P (Suc k) s'"
  shows "P (n + length (filter is_scan es)) st'"
  using assms(1,2)
proof (induction es arbitrary: st n)
  case Nil
  then show ?case by simp
next
  case (Cons e es)
  show ?case
  proof (cases e)
    case (on_map m)
    from Cons.prems(2) have "P n (map_callback m st)"
      by (rule stable) (rule untouched_map_callback)
    moreover from Cons.prems(1) on_map have "run E es (map_callback m st) = Some st'" by simp
    ultimately have "P (n + length (filter is_scan es)) st'" by (rule Cons.IH [rotated])
    with on_map show ?thesis by simp
  next
    case (on_gps g)
    from Cons.prems(2) have "P n (gps_callback g st)"
      by (rule stable) (rule untouched_gps_callback)
    moreover from Cons.prems(1) on_gps have "run E es (gps_callback g st) = Some st'" by simp
    ultimately have "P (n + length (filter is_scan es)) st'" by (rule Cons.IH [rotated])
    with on_gps show ?thesis by simp
  next
    case (on_points s polls)
    with Cons.prems(1) obtain s1 where s1: "pc_callback E s polls st = Some s1"
      and rest: "run E es s1 = Some st'"
      by (auto split: option.splits)
    from Cons.prems(2) s1 have "P (Suc n) s1" by (rule step)
    with rest have "P (Suc n + length (filter is_scan es)) st'" by (rule Cons.IH)
    with on_points show ?thesis by simp
  qed
qed







lemma run_returns_once_ready:
  "gps_ready st \<Longrightarrow> map_ready st \<Longrightarrow>
     \<exists>st'. run E es st = Some st' \<and> gps_ready st' \<and> map_ready st'"
proof (induction es arbitrary: st)
  case Nil
  then show ?case by simp
next
  case (Cons e es)
  show ?case
  proof (cases e)
    case (on_map m)
    have "gps_ready (map_callback m st)" "map_ready (map_callback m st)"
      using Cons.prems by (simp_all add: map_callback_def)
    from Cons.IH [OF this] on_map show ?thesis by simp
  next
    case (on_gps g)
    have "gps_ready (gps_callback g st)" "map_ready (gps_callback g st)"
      using Cons.prems by (simp_all add: gps_callback_def Let_def)
    from Cons.IH [OF this] on_gps show ?thesis by simp
  next
    case (on_points s polls)
    have w: "wait_ready polls st = Some st"
      using Cons.prems by (rule wait_ready_when_ready)
    from pc_callback_returns [OF w] obtain s1 where s1: "pc_callback E s polls st = Some s1"
      by blast
    from pc_callback_result [OF s1] w Cons.prems have "gps_ready s1" "map_ready s1"
      by auto
    from Cons.IH [OF this] on_points s1 show ?thesis by simp
  qed
qed


lemma ctor_members:
  assumes "Localizer_ctor nh opened = (lg, Inr st0)"
  shows "\<exists>c2l ml sl. st0 = members c2l ml sl opened"
  using assms
  by (auto simp: Localizer_ctor_def Let_def split: sum.splits)

lemma ctor_fresh:
  assumes "Localizer_ctor nh opened = (lg, Inr st0)"
  shows "\<not> initialied st0 \<and> align_history st0 = [] \<and> localization_score st0 = 0
     \<and> outfile_is_open st0 = opened \<and> cnt st0 = 0"
  using ctor_members [OF assms] by (auto simp: members_def)

lemma trace_rows_invariant:
  assumes "run E es st = Some st'"
    and "cnt st = 0" and "outfile st = [header]" and "outfile_is_open st"
    and "align_history st = []"
  shows "cnt st' = of_nat (length (filter is_scan es)) \<and> outfile_is_open st'
     \<and> length (steady_calls st') = length (filter is_scan es)
     \<and> outfile st' = header #
          map (\<lambda>j. pose_row E (of_nat (Suc j))
                     (car_pose (fst (outcome E (steady_calls st' ! j))) (car2Lidar st)))
            [0..<length (filter is_scan es)]"
proof -
  let ?rows = "\<lambda>k s. map (\<lambda>j. pose_row E (of_nat (Suc j))
                     (car_pose (fst (outcome E (steady_calls s ! j))) (car2Lidar st))) [0..<k]"
  let ?P = "\<lambda>k s. cnt s = of_nat k \<and> outfile_is_open s \<and> car2Lidar s = car2Lidar st
     \<and> length (steady_calls s) = k \<and> outfile s = header # ?rows k s"
  have "?P (0 + length (filter is_scan es)) st'"
  proof (rule run_tracker_invariant [where P = ?P, OF assms(1)])
    show "?P 0 st" using assms by (simp add: steady_calls_def)
  next
    fix k s s' assume "?P k s" and u: "untouched s s'"
    then show "?P k s'"
      by (simp add: steady_calls_untouched [OF u]) (simp add: untouched_def)
  next
    fix k m polls s s'
    assume P: "?P k s" and pc: "pc_callback E m polls s = Some s'"
    from pc_callback_result [OF pc] obtain sw where sw: "wait_ready polls s = Some sw"
      and c: "cnt s' = cnt sw + 1" and o: "outfile_is_open s' = outfile_is_open sw"
      and f: "outfile s' =
         (if outfile_is_open sw
          then outfile sw @ [pose_row E (cnt sw + 1)
                 (car_pose (fst (outcome E (steady_call E m sw))) (car2Lidar sw))]
          else outfile sw)"
      and l: "car2Lidar s' = car2Lidar sw"
      by blast
    from wait_ready_result [OF sw] have u: "untouched s sw" by simp
    from pc_callback_calls [OF pc] sw
    have sc: "steady_calls s' = steady_calls s @ [steady_call E m sw]" by auto
    from P u have w: "cnt sw = of_nat k" "outfile_is_open sw" "car2Lidar sw = car2Lidar st"
      "outfile sw = header # ?rows k s"
      by (simp_all add: untouched_def)
    from P have len: "length (steady_calls s) = k" by simp
    have same: "steady_calls s' ! j = steady_calls s ! j" if "j < k" for j
      using that by (simp add: sc nth_append len)
    have old: "?rows k s' = ?rows k s"
      by (rule map_cong) (auto simp: same)
    have new: "steady_calls s' ! k = steady_call E m sw"
      by (simp add: sc len [symmetric])
    have "?rows (Suc k) s' = ?rows k s' @ [pose_row E (of_nat (Suc k))
        (car_pose (fst (outcome E (steady_calls s' ! k))) (car2Lidar st))]"
      by simp
    then have "?rows (Suc k) s' = ?rows k s @ [pose_row E (of_nat (Suc k))
        (car_pose (fst (outcome E (steady_call E m sw))) (car2Lidar st))]"
      by (simp only: old new)
    moreover from w c have "cnt s' = of_nat (Suc k)" by simp
    moreover from w f have "outfile s' = header # (?rows k s @ [pose_row E (of_nat (Suc k))
        (car_pose (fst (outcome E (steady_call E m sw))) (car2Lidar st))])"
      by (simp add: add.commute)
    ultimately show "?P (Suc k) s'"
      using w o l by (simp add: sc len)
  qed
  then show ?thesis by simp
qed

section \<open>Composition and inverse of transforms\<close>








lemma mat_vec_Identity3: "mat_vec Identity3 v = v"
proof -
  obtain x y z where v: "v = (x, y, z)" by (metis prod_cases3)
  show ?thesis by (simp add: v Identity3_def)
qed










section \<open>The examples, evaluated\<close>

lemmas example_defs =
  example_events_def example_node_def members_def map_callback_def gps_callback_def
  float_point_def
  pc_callback_def wait_ready.simps align_map_def first_icp_loop_unrolled headings_def
  first_icp_body_def heading_guess_def stub_env_def stub_score_def Let_def
  to_float_10 to_float_5 to_float_0 to_float_3 to_double_3 to_double_6 to_double_9 FLT_MAX_def
  icp_settings_steady_def first_icp_settings_def record_pose_def car_pose_def pose_row_def
  cast_double_def transformToEigen_def affine_mul_def affine_inverse_def example_map_def
  example_scan_def Identity4f_def Identity3_def

lemma example_ctor:
  "Localizer_ctor example_handle True =
     ([ROS_INFO ''saving results to %s'' [], ROS_INFO ''%s initialized'' []], Inr example_node)"
  by (simp add: Localizer_ctor_def example_handle_def example_node_def param_def vector_at_def
      then_at_def Let_def)

lemma example_run_returns:
  "run E example_events example_node = Some (the (run E example_events example_node))"
proof -
  let ?s = "gps_callback (10, 5, 0) (map_callback example_map example_node)"
  have "gps_ready ?s" "map_ready ?s"
    by (simp_all add: gps_callback_def map_callback_def Let_def)
  from run_returns_once_ready [OF this, of E
      "[on_points example_scan [], on_points example_scan [], on_points example_scan []]"]
  obtain st' where "run E
      [on_points example_scan [], on_points example_scan [], on_points example_scan []] ?s = Some st'"
    by blast
  moreover have "run E example_events example_node = run E
      [on_points example_scan [], on_points example_scan [], on_points example_scan []] ?s"
    by (simp add: example_events_def)
  ultimately show ?thesis by simp
qed

lemma example_run_value:
  "map_option (\<lambda>s. (localization_score s, init_guess s, initialied s, outfile s, align_history s))
     (run stub_env example_events example_node) =
   Some (9, heading_guess stub_env (10, 5, 0) (13421773 / 268435456), True,
     [header,
      row 1 9 (1328755507 / 268435456) (- 2) 0 0 0,
      row 2 9 (1328755507 / 268435456) (- 2) 0 0 0,
      row 3 9 (1328755507 / 268435456) (- 2) 0 0 0],
     map (\<lambda>yaw. \<lparr>aligner = first_icp, input_source = example_scan, input_target = example_map,
                 guess = heading_guess stub_env (10, 5, 0) yaw, initialied_then = False\<rparr>) headings
     @ replicate 3 \<lparr>aligner = icp, input_source = example_scan, input_target = example_map,
         guess = heading_guess stub_env (10, 5, 0) (13421773 / 268435456),
         initialied_then = True\<rparr>)"
  by (simp add: example_defs numeral_3_eq_3)

lemma example_run_fields:
  "localization_score (the (run stub_env example_events example_node)) = 9"
  "init_guess (the (run stub_env example_events example_node)) =
     heading_guess stub_env (10, 5, 0) (13421773 / 268435456)"
  "outfile (the (run stub_env example_events example_node)) =
     [header,
      row 1 9 (1328755507 / 268435456) (- 2) 0 0 0,
      row 2 9 (1328755507 / 268435456) (- 2) 0 0 0,
      row 3 9 (1328755507 / 268435456) (- 2) 0 0 0]"
  "align_history (the (run stub_env example_events example_node)) =
     map (\<lambda>yaw. \<lparr>aligner = first_icp, input_source = example_scan, input_target = example_map,
                 guess = heading_guess stub_env (10, 5, 0) yaw, initialied_then = False\<rparr>) headings
     @ replicate 3 \<lparr>aligner = icp, input_source = example_scan, input_target = example_map,
         guess = heading_guess stub_env (10, 5, 0) (13421773 / 268435456),
         initialied_then = True\<rparr>"
  using example_run_value example_run_returns [of stub_env] by auto

lemma example_steady_calls:
  "steady_calls (the (run stub_env example_events example_node)) =
     replicate 3 \<lparr>aligner = icp, input_source = example_scan, input_target = example_map,
         guess = heading_guess stub_env (10, 5, 0) (13421773 / 268435456),
         initialied_then = True\<rparr>"
  by (simp add: steady_calls_def example_run_fields(4) headings_def)

lemma example_bootstrap_calls:
  "bootstrap_calls (the (run stub_env example_events example_node)) =
     map (\<lambda>yaw. \<lparr>aligner = first_icp, input_source = example_scan, input_target = example_map,
                 guess = heading_guess stub_env (10, 5, 0) yaw, initialied_then = False\<rparr>) headings"
  by (simp add: bootstrap_calls_def example_run_fields(4) headings_def)

lemma example_outcome:
  "outcome stub_env \<lparr>aligner = icp, input_source = example_scan, input_target = example_map,
         guess = heading_guess stub_env (10, 5, 0) (13421773 / 268435456),
         initialied_then = True\<rparr> =
     (heading_guess stub_env (10, 5, 0) (13421773 / 268435456), 3)"
  by (simp add: outcome_def stub_env_def stub_score_def heading_guess_def Let_def)

lemma example_scans: "length (filter is_scan example_events) = 3"
  by (simp add: example_events_def)

lemma example_has_scans: "filter is_scan example_events \<noteq> []"
  by (simp add: example_events_def)


lemma example_ready_fresh:
  "\<not> initialied example_ready_node" "bootstrap_calls example_ready_node = []"
  by (simp_all add: example_ready_node_def gps_callback_def map_callback_def example_node_def
      members_def bootstrap_calls_def Let_def)







lemma example_first_scan_outfile:
  "outfile (the (pc_callback stub_env example_scan [] example_ready_node)) =
     [header, row 1 9 (1328755507 / 268435456) (- 2) 0 0 0]"
  by (simp add: example_ready_node_def example_defs)

section \<open>C1: which candidate the heading search keeps\<close>




text \<open>The narrowing of \<open>min_score\<close> to \<open>float\<close> matters as well: the first score below
  rounds down to 3, the second is smaller than the first and not smaller than 3, and
  the first candidate stays.\<close>

lemma keep_best_narrowing_example:
  "foldl keep_best (FLT_MAX, Identity4f) [(a, 3 + 1 / 2 ^ 30), (b, 3 + 1 / 2 ^ 31)] = (3, a)"
proof -
  have "to_float (3 + 1 / 2 ^ 30) = 3" by code_simp
  then show ?thesis by (simp add: keep_best_def FLT_MAX_def)
qed

section \<open>C2: warm starts\<close>

text \<open>
  C2. In every run from the constructed node, each steady-state registration after the
  first starts from the answer to the one before it, unchanged; the first starts from
  the pose that the heading search kept; and after a scan has been processed
  \<open>init_guess\<close> holds the answer to its registration.
\<close>

theorem warm_start_chain:
  assumes "Localizer_ctor nh opened = (lg, Inr st0)"
    and "run E es st0 = Some st"
  shows "length (steady_calls st) = length (filter is_scan es)
     \<and> chained E (steady_calls st)
     \<and> (filter is_scan es \<noteq> [] \<longrightarrow>
          guess (hd (steady_calls st)) =
            snd (foldl keep_best (FLT_MAX, Identity4f) (map (outcome E) (bootstrap_calls st)))
          \<and> init_guess st = fst (outcome E (last (steady_calls st))))"
proof -
  let ?P = "\<lambda>k s. length (steady_calls s) = k \<and> chained E (steady_calls s)
     \<and> initialied s = (0 < k)
     \<and> (k = 0 \<longrightarrow> align_history s = [])
     \<and> (0 < k \<longrightarrow>
          guess (hd (steady_calls s)) =
            snd (foldl keep_best (FLT_MAX, Identity4f) (map (outcome E) (bootstrap_calls s)))
          \<and> init_guess s = fst (outcome E (last (steady_calls s))))"
  have "?P (0 + length (filter is_scan es)) st"
  proof (rule run_tracker_invariant [where P = ?P, OF assms(2)])
    show "?P 0 st0"
      using ctor_fresh [OF assms(1)] by (simp add: steady_calls_def chained_def)
  next
    fix k s s' assume "?P k s" and u: "untouched s s'"
    moreover from u have "align_history s' = align_history s" "initialied s' = initialied s"
      "init_guess s' = init_guess s"
      by (simp_all add: untouched_def)
    ultimately show "?P k s'"
      by (simp add: steady_calls_untouched [OF u] bootstrap_calls_untouched [OF u])
  next
    fix k m polls s s'
    assume P: "?P k s" and pc: "pc_callback E m polls s = Some s'"
    from pc_callback_calls [OF pc] obtain sw where u: "untouched s sw"
      and sc: "steady_calls s' = steady_calls s @ [steady_call E m sw]"
      and bc: "bootstrap_calls s' = bootstrap_calls s @ search_calls E m sw"
      and g: "init_guess s' = fst (outcome E (steady_call E m sw))"
      and i: "initialied s'"
      by blast
    from u have isw: "initialied sw = initialied s" "init_guess sw = init_guess s"
      by (simp_all add: untouched_def)
    show "?P (Suc k) s'"
    proof (cases "k = 0")
      case True
      with P have empty: "steady_calls s = []" "bootstrap_calls s = []" and "\<not> initialied s"
        by (simp_all add: bootstrap_calls_def)
      with isw have ni: "\<not> initialied sw" by simp
      let ?fs = "voxel_grid E (scanLeafSize sw) m"
      let ?fm = "voxel_grid E (mapLeafSize sw) (map_points sw)"
      from ni have "map (outcome E) (search_calls E m sw) =
          map (candidate E ?fs ?fm (gps_point sw)) headings"
        by (simp add: search_calls_def outcome_bootstrap_call)
      moreover from ni have "guess (steady_call E m sw) = best_pose E ?fs ?fm (gps_point sw)"
        by (simp add: steady_call_def Let_def)
      ultimately have "guess (steady_call E m sw) =
          snd (foldl keep_best (FLT_MAX, Identity4f) (map (outcome E) (search_calls E m sw)))"
        by (simp add: best_pose_def)
      then show ?thesis
        using True i g by (simp add: sc bc empty chained_single)
    next
      case False
      with P isw have "initialied sw" by simp
      then have none: "search_calls E m sw = []"
        and gs: "guess (steady_call E m sw) = init_guess sw"
        by (simp_all add: search_calls_def steady_call_def Let_def)
      from False P have ne: "steady_calls s \<noteq> []" by auto
      from False P isw have "guess (steady_call E m sw) = fst (outcome E (last (steady_calls s)))"
        by (simp add: gs)
      with P ne have "chained E (steady_calls s @ [steady_call E m sw])"
        by (intro chained_snoc) simp_all
      then show ?thesis
        using False P i g ne by (simp add: sc bc none)
    qed
  qed
  then show ?thesis by simp
qed

theorem warm_start_chain_witness:
  "Localizer_ctor example_handle True =
     ([ROS_INFO ''saving results to %s'' [], ROS_INFO ''%s initialized'' []], Inr example_node)
   \<and> run stub_env example_events example_node =
       Some (the (run stub_env example_events example_node))
   \<and> filter is_scan example_events \<noteq> []
   \<and> chained stub_env (steady_calls (the (run stub_env example_events example_node)))
   \<and> guess (hd (steady_calls (the (run stub_env example_events example_node)))) =
       snd (foldl keep_best (FLT_MAX, Identity4f)
              (map (outcome stub_env)
                 (bootstrap_calls (the (run stub_env example_events example_node)))))
   \<and> init_guess (the (run stub_env example_events example_node)) =
       fst (outcome stub_env (last (steady_calls (the (run stub_env example_events example_node)))))
   \<and> init_guess (the (run stub_env example_events example_node)) =
       heading_guess stub_env (10, 5, 0) (13421773 / 268435456)"
  using warm_start_chain [OF example_ctor example_run_returns, of stub_env]
    example_ctor example_run_returns [of stub_env] example_has_scans
  by (simp add: example_run_fields(2))

section \<open>C3: how often the search invokes the registrar\<close>

text \<open>
  C3 (amended). The heading search invokes the registrar exactly four times: for the
  headings \<open>0\<close> and the three values that \<open>yaw += 0.05\<close> produces from it in single
  precision, all below \<open>0.2\<close>. The next value is not below \<open>0.2\<close> and ends the loop.
\<close>

theorem heading_search_invocations:
  assumes "\<not> initialied st"
  shows "\<exists>result st'. align_map E scan st = Some (result, st')
     \<and> bootstrap_calls st' = bootstrap_calls st @
         map (bootstrap_call E (voxel_grid E (scanLeafSize st) scan)
                (voxel_grid E (mapLeafSize st) (map_points st)) st) headings
     \<and> length headings = 4
     \<and> headings = [0, next_yaw 0, next_yaw (next_yaw 0), next_yaw (next_yaw (next_yaw 0))]
     \<and> (\<forall>yaw \<in> set headings. 0 \<le> yaw \<and> yaw < literal_0_2)
     \<and> \<not> next_yaw (last headings) < literal_0_2"
proof -
  obtain L where "align_map E scan st =
     Some (fst (outcome E (steady_call E scan st)),
           st\<lparr>initialied := True, rosout_log := L,
              localization_score :=
                to_double (localization_score st + snd (outcome E (steady_call E scan st))),
              init_guess := fst (outcome E (steady_call E scan st)),
              align_history :=
                align_history st @ search_calls E scan st @ [steady_call E scan st]\<rparr>)"
    using align_map_result [of E scan st] by blast
  moreover have "search_calls E scan st =
      map (bootstrap_call E (voxel_grid E (scanLeafSize st) scan)
                (voxel_grid E (mapLeafSize st) (map_points st)) st) headings"
    using assms by (simp add: search_calls_def)
  ultimately have "\<exists>result st'. align_map E scan st = Some (result, st')
     \<and> bootstrap_calls st' = bootstrap_calls st @
         map (bootstrap_call E (voxel_grid E (scanLeafSize st) scan)
                (voxel_grid E (mapLeafSize st) (map_points st)) st) headings"
    by (simp add: bootstrap_calls_def steady_call_aligner bootstrap_call_def)
  moreover have "length headings = 4" by (simp add: headings_def)
  ultimately show ?thesis
    using headings_iterated headings_below_limit headings_end by blast
qed

theorem heading_search_invocations_witness:
  "\<not> initialied example_ready_node
   \<and> (\<exists>result st'. align_map stub_env example_scan example_ready_node = Some (result, st')
        \<and> length (bootstrap_calls st') = 4
        \<and> map (\<lambda>c. fst (fst (snd (topLeftCorner (guess c))))) (bootstrap_calls st') =
            [0, 13421773 / 268435456, 13421773 / 134217728, 5033165 / 33554432])"
proof -
  from heading_search_invocations [OF example_ready_fresh(1), of stub_env example_scan]
  obtain result st' where "align_map stub_env example_scan example_ready_node = Some (result, st')"
    "bootstrap_calls st' = bootstrap_calls example_ready_node @
         map (bootstrap_call stub_env
                (voxel_grid stub_env (scanLeafSize example_ready_node) example_scan)
                (voxel_grid stub_env (mapLeafSize example_ready_node) (map_points example_ready_node))
                example_ready_node) headings"
    by blast
  then show ?thesis
    using example_ready_fresh(1)
    by (simp add: example_ready_fresh(2) headings_def bootstrap_call_def heading_guess_def
        stub_env_def)
qed

text \<open>The claim as stated fails: on the example the registrar is invoked four times by
  the search, not five.\<close>

theorem heading_search_invocations_counterexample:
  "map_option (length \<circ> bootstrap_calls \<circ> snd)
     (align_map stub_env example_scan example_ready_node) = Some 4
   \<and> map_option (length \<circ> bootstrap_calls \<circ> snd)
     (align_map stub_env example_scan example_ready_node) \<noteq> Some 5"
  by (simp add: example_ready_node_def bootstrap_calls_def example_defs)

section \<open>C4: which fix seeds the search\<close>




section \<open>C5: malformed extrinsics\<close>

text \<open>
  C5 (amended). When the translation has at least three elements and the rotation at
  least four, the constructor returns, with the first three and four elements as the
  extrinsics, and logs the error exactly when a count is not 3 or 4. When the
  translation has fewer than three elements or the rotation fewer than four, the error
  is logged and then \<open>at\<close> throws \<open>std::out_of_range\<close>: no node is constructed.
\<close>

theorem malformed_extrinsics:
  "(3 \<le> length (param (baselink2lidar_trans nh) [])
      \<and> 4 \<le> length (param (baselink2lidar_rot nh) [])
    \<longrightarrow> (\<exists>lg st. Localizer_ctor nh opened = (lg, Inr st)
          \<and> car2Lidar st =
              \<lparr>translation = (param (baselink2lidar_trans nh) [] ! 0,
                               param (baselink2lidar_trans nh) [] ! 1,
                               param (baselink2lidar_trans nh) [] ! 2),
               rotation = (param (baselink2lidar_rot nh) [] ! 0,
                            param (baselink2lidar_rot nh) [] ! 1,
                            param (baselink2lidar_rot nh) [] ! 2,
                            param (baselink2lidar_rot nh) [] ! 3)\<rparr>
          \<and> (ROS_ERROR ''transform not set properly'' \<in> set lg) =
              (length (param (baselink2lidar_trans nh) []) \<noteq> 3
                 \<or> length (param (baselink2lidar_rot nh) []) \<noteq> 4)))
   \<and> (length (param (baselink2lidar_trans nh) []) < 3
      \<or> length (param (baselink2lidar_rot nh) []) < 4
    \<longrightarrow> Localizer_ctor nh opened =
          ([ROS_INFO ''saving results to %s'' [], ROS_ERROR ''transform not set properly''],
           Inl out_of_range))"
proof (intro conjI impI)
  let ?trans = "param (baselink2lidar_trans nh) []"
  let ?rot = "param (baselink2lidar_rot nh) []"
  {
    assume "3 \<le> length ?trans \<and> 4 \<le> length ?rot"
    then have "vector_at ?trans 0 = Inr (?trans ! 0)" "vector_at ?trans 1 = Inr (?trans ! 1)"
      "vector_at ?trans 2 = Inr (?trans ! 2)" "vector_at ?rot 0 = Inr (?rot ! 0)"
      "vector_at ?rot 1 = Inr (?rot ! 1)" "vector_at ?rot 2 = Inr (?rot ! 2)"
      "vector_at ?rot 3 = Inr (?rot ! 3)"
      by (auto simp: vector_at_def)
    then show "\<exists>lg st. Localizer_ctor nh opened = (lg, Inr st)
          \<and> car2Lidar st =
              \<lparr>translation = (?trans ! 0, ?trans ! 1, ?trans ! 2),
               rotation = (?rot ! 0, ?rot ! 1, ?rot ! 2, ?rot ! 3)\<rparr>
          \<and> (ROS_ERROR ''transform not set properly'' \<in> set lg) =
              (length ?trans \<noteq> 3 \<or> length ?rot \<noteq> 4)"
      by (simp add: Localizer_ctor_def Let_def then_at_Inr members_def)
  }
  {
    assume short: "length ?trans < 3 \<or> length ?rot < 4"
    have "then_at (vector_at ?trans 0) (\<lambda>tx.
           then_at (vector_at ?trans 1) (\<lambda>ty.
           then_at (vector_at ?trans 2) (\<lambda>tz.
           then_at (vector_at ?rot 0) (\<lambda>rx.
           then_at (vector_at ?rot 1) (\<lambda>ry.
           then_at (vector_at ?rot 2) (\<lambda>rz.
           then_at (vector_at ?rot 3) (\<lambda>rw.
             Inr \<lparr>translation = (tx, ty, tz), rotation = (rx, ry, rz, rw)\<rparr>))))))) =
          Inl out_of_range"
      using short
      by (auto simp: vector_at_def then_at_def split: sum.splits)
    moreover from short have "length ?trans \<noteq> 3 \<or> length ?rot \<noteq> 4" by auto
    ultimately show "Localizer_ctor nh opened =
          ([ROS_INFO ''saving results to %s'' [], ROS_ERROR ''transform not set properly''],
           Inl out_of_range)"
      by (simp add: Localizer_ctor_def Let_def)
  }
qed

theorem malformed_extrinsics_witness:
  "3 \<le> length (param (baselink2lidar_trans oversized_handle) [])
   \<and> 4 \<le> length (param (baselink2lidar_rot oversized_handle) [])
   \<and> (\<exists>lg st. Localizer_ctor oversized_handle True = (lg, Inr st)
        \<and> car2Lidar st = \<lparr>translation = (1, 0, 2), rotation = (0, 0, 0, 1)\<rparr>
        \<and> ROS_ERROR ''transform not set properly'' \<in> set lg)
   \<and> length (param (baselink2lidar_trans unset_handle) []) < 3
   \<and> Localizer_ctor unset_handle True =
        ([ROS_INFO ''saving results to %s'' [], ROS_ERROR ''transform not set properly''],
         Inl out_of_range)"
  using malformed_extrinsics [of oversized_handle True] malformed_extrinsics [of unset_handle True]
  by (simp add: oversized_handle_def unset_handle_def param_def)

text \<open>The claim as stated fails when the extrinsics are not set at all: both vectors
  default to empty, the error is logged, and the first \<open>at\<close> throws.\<close>

theorem malformed_extrinsics_counterexample:
  "Localizer_ctor unset_handle True =
     ([ROS_INFO ''saving results to %s'' [], ROS_ERROR ''transform not set properly''],
      Inl out_of_range)"
  by (simp add: Localizer_ctor_def unset_handle_def param_def vector_at_def then_at_def Let_def)

section \<open>C6: the sequence ids of the trace\<close>

text \<open>
  C6. In a run that starts from the constructed node with the trace file open and
  processes \<open>N\<close> scans, the lines written after the header carry the ids
  \<open>1, 2, ..., N\<close> in this order, one line per scan: the \<open>j\<close>-th line is the pose
  composed from the registration of the \<open>j\<close>-th scan. \<open>N\<close> stays within the range of
  the \<open>int\<close> counter, beyond which \<open>++cnt\<close> has no defined meaning in the source.
\<close>

theorem trace_sequence_ids:
  assumes "Localizer_ctor nh True = (lg, Inr st0)"
    and "run E es st0 = Some st"
    and "length (filter is_scan es) < 2 ^ 31"
  shows "\<exists>rows. outfile st = header # rows
     \<and> map row_id rows = map (\<lambda>j. Some (int j)) [1..<Suc (length (filter is_scan es))]
     \<and> rows = map (\<lambda>j. pose_row E (of_nat (Suc j))
                     (car_pose (fst (outcome E (steady_calls st ! j))) (car2Lidar st0)))
                [0..<length (filter is_scan es)]"
proof -
  let ?n = "length (filter is_scan es)"
  let ?rows = "map (\<lambda>j. pose_row E (of_nat (Suc j))
                     (car_pose (fst (outcome E (steady_calls st ! j))) (car2Lidar st0))) [0..<?n]"
  from ctor_members [OF assms(1)] obtain c2l ml sl where "st0 = members c2l ml sl True"
    by blast
  then have "cnt st0 = 0" "outfile st0 = [header]" "outfile_is_open st0" "align_history st0 = []"
    by (simp_all add: members_def)
  from trace_rows_invariant [OF assms(2) this] have rows: "outfile st = header # ?rows"
    by simp
  have "map row_id ?rows = map (\<lambda>j. Some (sint (of_nat (Suc j) :: 32 word))) [0..<?n]"
    by (simp add: row_id_pose_row comp_def)
  also have "\<dots> = map (\<lambda>j. Some (int (Suc j))) [0..<?n]"
  proof (intro map_cong refl)
    fix j assume "j \<in> set [0..<?n]"
    then have "Suc j \<le> ?n" by auto
    with assms(3) have "Suc j < 2 ^ 31" by linarith
    then show "Some (sint (of_nat (Suc j) :: 32 word)) = Some (int (Suc j))"
      by (simp only: sint_of_nat_32)
  qed
  also have "\<dots> = map (\<lambda>j. Some (int j)) (map Suc [0..<?n])"
    by (simp add: comp_def)
  also have "map Suc [0..<?n] = [1..<Suc ?n]"
    by (simp add: map_Suc_upt)
  finally show ?thesis using rows by blast
qed

theorem trace_sequence_ids_witness:
  "Localizer_ctor example_handle True =
     ([ROS_INFO ''saving results to %s'' [], ROS_INFO ''%s initialized'' []], Inr example_node)
   \<and> length (filter is_scan example_events) < 2 ^ 31
   \<and> (\<exists>rows. outfile (the (run stub_env example_events example_node)) = header # rows
         \<and> map row_id rows = [Some 1, Some 2, Some 3])"
proof -
  have n: "length (filter is_scan example_events) = 3"
    by (simp add: example_events_def)
  have "[1..<Suc 3] = [1, 2, 3]"
    by (simp add: upt_rec)
  with trace_sequence_ids [OF example_ctor example_run_returns, of stub_env] n example_ctor
  show ?thesis by simp
qed

section \<open>C7: the recorded pose\<close>



section \<open>C8: which map is the target\<close>




section \<open>C9: the search runs once\<close>

text \<open>
  C9. In every run from the constructed node the heading search runs once, while the
  first scan is processed: the history is the calls of one search, all made with
  \<open>initialied\<close> unset and on the first scan, followed by one steady-state registration
  per scan, all made with \<open>initialied\<close> set. The flag is set as soon as one scan has been
  processed.
\<close>

theorem bootstrap_runs_once:
  assumes "Localizer_ctor nh opened = (lg, Inr st0)"
    and "run E es st0 = Some st"
  shows "align_history st = bootstrap_calls st @ steady_calls st
     \<and> length (steady_calls st) = length (filter is_scan es)
     \<and> length (bootstrap_calls st) = (if filter is_scan es = [] then 0 else length headings)
     \<and> initialied st = (filter is_scan es \<noteq> [])
     \<and> (\<forall>c \<in> set (align_history st). initialied_then c = (aligner c = icp))
     \<and> (\<forall>c \<in> set (bootstrap_calls st).
           input_source c = input_source (hd (steady_calls st))
           \<and> input_target c = input_target (hd (steady_calls st)))"
proof -
  let ?P = "\<lambda>k s. align_history s = bootstrap_calls s @ steady_calls s
     \<and> length (steady_calls s) = k
     \<and> length (bootstrap_calls s) = (if k = 0 then 0 else length headings)
     \<and> initialied s = (0 < k)
     \<and> (\<forall>c \<in> set (align_history s). initialied_then c = (aligner c = icp))
     \<and> (\<forall>c \<in> set (bootstrap_calls s).
           input_source c = input_source (hd (steady_calls s))
           \<and> input_target c = input_target (hd (steady_calls s)))"
  have "?P (0 + length (filter is_scan es)) st"
  proof (rule run_tracker_invariant [where P = ?P, OF assms(2)])
    show "?P 0 st0"
      using ctor_fresh [OF assms(1)] by (simp add: steady_calls_def bootstrap_calls_def)
  next
    fix k s s' assume "?P k s" and u: "untouched s s'"
    moreover from u have "align_history s' = align_history s" "initialied s' = initialied s"
      by (simp_all add: untouched_def)
    ultimately show "?P k s'"
      by (simp add: steady_calls_untouched [OF u] bootstrap_calls_untouched [OF u])
  next
    fix k m polls s s'
    assume P: "?P k s" and pc: "pc_callback E m polls s = Some s'"
    from pc_callback_calls [OF pc] obtain sw where u: "untouched s sw"
      and sc: "steady_calls s' = steady_calls s @ [steady_call E m sw]"
      and bc: "bootstrap_calls s' = bootstrap_calls s @ search_calls E m sw"
      and h: "align_history s' = align_history s @ search_calls E m sw @ [steady_call E m sw]"
      and i: "initialied s'"
      by blast
    from u have isw: "initialied sw = initialied s" by (simp add: untouched_def)
    show "?P (Suc k) s'"
    proof (cases "k = 0")
      case True
      with P have empty: "align_history s = []" "steady_calls s = []" "bootstrap_calls s = []"
        and "\<not> initialied s"
        by simp_all
      with isw have "\<not> initialied sw" by simp
      then have search: "search_calls E m sw =
          map (bootstrap_call E (voxel_grid E (scanLeafSize sw) m)
                 (voxel_grid E (mapLeafSize sw) (map_points sw)) sw) headings"
        by (simp add: search_calls_def)
      from \<open>\<not> initialied sw\<close> show ?thesis
        using True i
        by (simp add: sc bc h empty search bootstrap_call_def steady_call_def Let_def)
    next
      case False
      with P isw have "initialied sw" by simp
      then have "search_calls E m sw = []" by (simp add: search_calls_def)
      moreover from False P have "steady_calls s \<noteq> []" by auto
      ultimately show ?thesis
        using False P i by (simp add: sc bc h steady_call_def Let_def)
    qed
  qed
  then show ?thesis by simp
qed

theorem bootstrap_runs_once_witness:
  "Localizer_ctor example_handle True =
     ([ROS_INFO ''saving results to %s'' [], ROS_INFO ''%s initialized'' []], Inr example_node)
   \<and> run stub_env example_events example_node =
       Some (the (run stub_env example_events example_node))
   \<and> align_history (the (run stub_env example_events example_node)) =
       bootstrap_calls (the (run stub_env example_events example_node))
       @ steady_calls (the (run stub_env example_events example_node))
   \<and> length (steady_calls (the (run stub_env example_events example_node))) = 3
   \<and> length (bootstrap_calls (the (run stub_env example_events example_node))) = 4
   \<and> initialied (the (run stub_env example_events example_node))
   \<and> map aligner (align_history (the (run stub_env example_events example_node))) =
       [first_icp, first_icp, first_icp, first_icp, icp, icp, icp]
   \<and> map initialied_then (align_history (the (run stub_env example_events example_node))) =
       [False, False, False, False, True, True, True]"
  using bootstrap_runs_once [OF example_ctor example_run_returns, of stub_env]
    example_ctor example_run_returns [of stub_env]
  by (simp add: example_scans example_has_scans example_steady_calls example_bootstrap_calls
      headings_def numeral_3_eq_3)

section \<open>C10: the cumulative fitness\<close>

text \<open>
  C10. The total that the destructor logs is the sum, accumulated frame by frame in
  double precision, of the fitness scores of the steady-state registrations, one per
  processed scan and the one of the first scan among them; the scores of the heading
  search are not part of it. The line is logged when the trace file is open.
\<close>

theorem cumulative_fitness_total:
  assumes "Localizer_ctor nh opened = (lg, Inr st0)"
    and "run E es st0 = Some st"
  shows "localization_score st =
           foldl (\<lambda>total c. to_double (total + snd (outcome E c))) 0 (steady_calls st)
     \<and> length (steady_calls st) = length (filter is_scan es)
     \<and> Localizer_dtor st =
         (if opened
          then [ROS_INFO ''ICP score: %lf''
                  [foldl (\<lambda>total c. to_double (total + snd (outcome E c))) 0 (steady_calls st)]]
          else [])"
proof -
  let ?sum = "\<lambda>cs. foldl (\<lambda>total c. to_double (total + snd (outcome E c))) 0 cs"
  let ?P = "\<lambda>k s. localization_score s = ?sum (steady_calls s)
     \<and> length (steady_calls s) = k \<and> outfile_is_open s = opened"
  have "?P (0 + length (filter is_scan es)) st"
  proof (rule run_tracker_invariant [where P = ?P, OF assms(2)])
    show "?P 0 st0"
      using ctor_fresh [OF assms(1)] by (simp add: steady_calls_def)
  next
    fix k s s' assume "?P k s" and "untouched s s'"
    then show "?P k s'"
      by (simp add: steady_calls_untouched) (simp add: untouched_def)
  next
    fix k m polls s s'
    assume P: "?P k s" and pc: "pc_callback E m polls s = Some s'"
    from pc_callback_calls [OF pc] obtain sw where
      "steady_calls s' = steady_calls s @ [steady_call E m sw]"
      "localization_score s' =
          to_double (localization_score s + snd (outcome E (steady_call E m sw)))"
      by blast
    moreover from pc_callback_result [OF pc] wait_ready_result
    have "outfile_is_open s' = outfile_is_open s"
      by (auto simp: untouched_def)
    ultimately show "?P (Suc k) s'" using P by simp
  qed
  then show ?thesis by (simp add: Localizer_dtor_def)
qed

theorem cumulative_fitness_total_witness:
  "Localizer_ctor example_handle True =
     ([ROS_INFO ''saving results to %s'' [], ROS_INFO ''%s initialized'' []], Inr example_node)
   \<and> run stub_env example_events example_node =
       Some (the (run stub_env example_events example_node))
   \<and> localization_score (the (run stub_env example_events example_node)) = 3 + 3 + 3
   \<and> length (steady_calls (the (run stub_env example_events example_node))) = 3
   \<and> Localizer_dtor (the (run stub_env example_events example_node)) =
       [ROS_INFO ''ICP score: %lf'' [9]]"
  using cumulative_fitness_total [OF example_ctor example_run_returns, of stub_env]
    example_ctor example_run_returns [of stub_env]
  by (simp add: example_steady_calls example_outcome numeral_3_eq_3
      to_double_3 to_double_6 to_double_9 example_scans)

end
